theory Spec2Isabelle
  imports Complex_Main "HOL-Library.Char_ord" "HOL-Library.List_Lexorder"
begin

section \<open>Python values, exceptions and data frames\<close>

text \<open>
  The dashboard is one Python script, \<^verbatim>\<open>src/app.py\<close>, executed top to bottom on every
  refresh. Exceptions are values of type \<open>exn\<close>; a computation that may raise has type
  \<open>exn + 'a\<close>, with \<open>Inl\<close> for the raised exception. \<open>ClientError\<close> carries the error
  code of the response (\<^verbatim>\<open>e.response['Error']['Code']\<close>); \<open>OtherError\<close> stands for any
  other subclass of \<^verbatim>\<open>Exception\<close> raised by a library.
\<close>

datatype exn =
    ClientError string
  | KeyError string
  | IndexError
  | TypeError
  | ValueError
  | OtherError string

definition bind_exn :: "exn + 'a \<Rightarrow> ('a \<Rightarrow> exn + 'b) \<Rightarrow> exn + 'b" where
  "bind_exn m f = (case m of Inl e \<Rightarrow> Inl e | Inr x \<Rightarrow> f x)"

text \<open>
  A cell of a data frame: a number (integer and float columns alike), the missing value
  \<^verbatim>\<open>nan\<close>, or a string. A timestamp of the converted \<^verbatim>\<open>time\<close> column is kept as the
  number of seconds of its wall-clock reading, \<^verbatim>\<open>NaT\<close> as \<open>NaN\<close>.
\<close>

datatype cell = Num real | NaN | Str string

text \<open>
  A data frame is its named columns, in order. Its number of rows is the length of its
  columns; \<^verbatim>\<open>df.empty\<close> holds when there is no column or no row.
\<close>

type_synonym frame = "(string \<times> cell list) list"

definition nrows :: "frame \<Rightarrow> nat" where
  "nrows df = (case df of [] \<Rightarrow> 0 | c # _ \<Rightarrow> length (snd c))"

definition frame_empty :: "frame \<Rightarrow> bool" where
  "frame_empty df = (df = [] \<or> nrows df = 0)"

definition columns :: "frame \<Rightarrow> string list" where
  "columns df = map fst df"

text \<open>\<^verbatim>\<open>df[name]\<close>: the column, or \<^verbatim>\<open>KeyError\<close>.\<close>

definition getitem :: "frame \<Rightarrow> string \<Rightarrow> exn + cell list" where
  "getitem df name = (case map_of df name of None \<Rightarrow> Inl (KeyError name) | Some xs \<Rightarrow> Inr xs)"

text \<open>
  \<^verbatim>\<open>bounds[name]\<close> where \<^verbatim>\<open>bounds\<close> may be \<^verbatim>\<open>None\<close>: subscripting \<^verbatim>\<open>None\<close> raises
  \<^verbatim>\<open>TypeError\<close>.
\<close>

definition getitem_opt :: "frame option \<Rightarrow> string \<Rightarrow> exn + cell list" where
  "getitem_opt b name = (case b of None \<Rightarrow> Inl TypeError | Some df \<Rightarrow> getitem df name)"

text \<open>\<^verbatim>\<open>df[name] = xs\<close>: replaces the column in place, or appends it.\<close>

fun setitem :: "frame \<Rightarrow> string \<Rightarrow> cell list \<Rightarrow> frame" where
  "setitem [] name xs = [(name, xs)]"
| "setitem (c # cs) name xs = (if fst c = name then (name, xs) # cs else c # setitem cs name xs)"

text \<open>\<^verbatim>\<open>.iloc[0]\<close> and \<^verbatim>\<open>.iloc[-1]\<close> raise \<^verbatim>\<open>IndexError\<close> on a column without rows.\<close>

definition iloc_first :: "cell list \<Rightarrow> exn + cell" where
  "iloc_first xs = (case xs of [] \<Rightarrow> Inl IndexError | x # _ \<Rightarrow> Inr x)"

definition iloc_last :: "cell list \<Rightarrow> exn + cell" where
  "iloc_last xs = (case xs of [] \<Rightarrow> Inl IndexError | _ # _ \<Rightarrow> Inr (last xs))"

text \<open>
  Comparison of two cells. Numbers compare as floats do: every comparison with \<^verbatim>\<open>nan\<close>
  is false. Strings compare lexicographically. A number against a string raises
  \<^verbatim>\<open>TypeError\<close>.
\<close>

fun py_lt :: "cell \<Rightarrow> cell \<Rightarrow> exn + bool" where
  "py_lt (Num a) (Num b) = Inr (a < b)"
| "py_lt (Num a) NaN = Inr False"
| "py_lt NaN (Num b) = Inr False"
| "py_lt NaN NaN = Inr False"
| "py_lt (Str a) (Str b) = Inr (a < b)"
| "py_lt (Str a) (Num b) = Inl TypeError"
| "py_lt (Str a) NaN = Inl TypeError"
| "py_lt (Num a) (Str b) = Inl TypeError"
| "py_lt NaN (Str b) = Inl TypeError"

definition py_gt :: "cell \<Rightarrow> cell \<Rightarrow> exn + bool" where
  "py_gt a b = py_lt b a"

text \<open>
  \<^verbatim>\<open>x or y\<close>: the right operand is evaluated only when the left one is false, so an
  exception of the right operand is raised only then.
\<close>

definition py_or :: "exn + bool \<Rightarrow> exn + bool \<Rightarrow> exn + bool" where
  "py_or x y = (case x of Inl e \<Rightarrow> Inl e | Inr a \<Rightarrow> (if a then Inr True else y))"

text \<open>
  The format specification \<^verbatim>\<open>:.1f\<close> accepts numbers (and \<^verbatim>\<open>nan\<close>) and raises
  \<^verbatim>\<open>ValueError\<close> on a string. The formatted text is represented by the value shown.
\<close>

fun fmt_1f :: "cell \<Rightarrow> exn + cell" where
  "fmt_1f (Num a) = Inr (Num a)"
| "fmt_1f NaN = Inr NaN"
| "fmt_1f (Str s) = Inl ValueError"

subsection \<open>Strings: \<^verbatim>\<open>split\<close>, \<^verbatim>\<open>int\<close>, \<^verbatim>\<open>str\<close>, \<^verbatim>\<open>os.path.join\<close>\<close>

text \<open>\<^verbatim>\<open>s.split(c)\<close> for a one-character separator: never an empty list.\<close>

fun split :: "char \<Rightarrow> string \<Rightarrow> string list" where
  "split c [] = [[]]"
| "split c (x # xs) =
     (if x = c then [] # split c xs
      else (case split c xs of [] \<Rightarrow> [[x]] | y # ys \<Rightarrow> (x # y) # ys))"

text \<open>
  The characters that \<^verbatim>\<open>int\<close> skips around a number: tab to carriage return, the
  space, and the code points 133 and 160.
\<close>

definition is_space :: "char \<Rightarrow> bool" where
  "is_space c = (of_char c \<in> {9, 10, 11, 12, 13, 32, 133, 160 :: nat})"

definition is_digit :: "char \<Rightarrow> bool" where
  "is_digit c = (48 \<le> (of_char c :: nat) \<and> (of_char c :: nat) \<le> 57)"

definition strip :: "string \<Rightarrow> string" where
  "strip s = rev (dropWhile is_space (rev (dropWhile is_space s)))"

definition digits_value :: "string \<Rightarrow> nat" where
  "digits_value ds = foldl (\<lambda>a c. 10 * a + (of_char c - 48)) 0 ds"

text \<open>
  \<^verbatim>\<open>int(s)\<close> on a string of code points below 256 without underscores (the argument
  is a piece of a \<^verbatim>\<open>split('_')\<close>): surrounding whitespace is dropped, one sign is
  allowed, and at least one digit and only digits must remain; otherwise
  \<^verbatim>\<open>ValueError\<close>.
\<close>

definition py_digits :: "string \<Rightarrow> exn + nat" where
  "py_digits ds = (if ds \<noteq> [] \<and> list_all is_digit ds then Inr (digits_value ds) else Inl ValueError)"

definition py_int :: "string \<Rightarrow> exn + int" where
  "py_int s =
     (case strip s of
        [] \<Rightarrow> Inl ValueError
      | c # cs \<Rightarrow>
          if c = CHR ''-'' then bind_exn (py_digits cs) (\<lambda>n. Inr (- int n))
          else if c = CHR ''+'' then bind_exn (py_digits cs) (\<lambda>n. Inr (int n))
          else bind_exn (py_digits (c # cs)) (\<lambda>n. Inr (int n)))"

text \<open>\<^verbatim>\<open>str(n)\<close> of an integer, as an f-string inserts it.\<close>

fun digits_of :: "nat \<Rightarrow> string" where
  "digits_of n = (if n < 10 then [char_of (48 + n)] else digits_of (n div 10) @ [char_of (48 + n mod 10)])"

declare digits_of.simps [simp del]

definition py_str :: "int \<Rightarrow> string" where
  "py_str i = (if i < 0 then CHR ''-'' # digits_of (nat (- i)) else digits_of (nat i))"

definition os_path_join :: "string \<Rightarrow> string \<Rightarrow> string" where
  "os_path_join a b =
     (if b \<noteq> [] \<and> hd b = CHR ''/'' then b
      else if a = [] then b
      else if last a = CHR ''/'' then a @ b
      else a @ CHR ''/'' # b)"

definition rstrip_char :: "char \<Rightarrow> string \<Rightarrow> string" where
  "rstrip_char c s = rev (dropWhile (\<lambda>x. x = c) (rev s))"

section \<open>The environment of one script run\<close>

text \<open>
  Everything the script reads from outside is a field of \<open>world\<close>: the sidebar controls,
  the secrets store, the local directory, the object store, pandas' CSV and timestamp
  parsing, and the clock. Each field gives the outcome of the corresponding call.
  \<^item> \<open>secret k\<close> is \<^verbatim>\<open>st.secrets[k]\<close>;
  \<^item> \<open>boto3_client key secret\<close> is \<^verbatim>\<open>boto3.client('s3', ...)\<close>: the exception it raises,
    if any;
  \<^item> \<open>get_object bucket key\<close> is \<^verbatim>\<open>s3_client.get_object(...)\<close> followed by reading the
    body;
  \<^item> \<open>list_objects_v2 bucket prefix\<close> gives the keys of \<^verbatim>\<open>response.get('Contents', [])\<close>;
  \<^item> \<open>glob pattern\<close> and \<open>path_exists path\<close> are \<^verbatim>\<open>glob\<close> and \<^verbatim>\<open>os.path.exists\<close>;
  \<^item> \<open>read_csv_file path\<close> and \<open>read_csv_body body\<close> are \<^verbatim>\<open>pd.read_csv\<close> on a path and
    on the bytes of an object;
  \<^item> \<open>to_datetime xs\<close> is \<^verbatim>\<open>pd.to_datetime\<close> on a column;
  \<^item> \<open>delay_seconds last_time timezone\<close> is lines 237 to 240: the last timestamp
    localized to the time zone, subtracted from the current time of that zone, in
    seconds;
  \<^item> \<open>series_min\<close> and \<open>series_max\<close> are \<^verbatim>\<open>Series.min()\<close> and \<^verbatim>\<open>Series.max()\<close>;
  \<^item> \<open>st_audio\<close> is the call \<^verbatim>\<open>st.audio(...)\<close> of line 267 on the sound file: the
    exception it raises, if any (for instance when the file cannot be read).
  The other display calls of Streamlit and Plotly are taken to succeed.
\<close>

record world =
  use_s3 :: bool
  refresh_interval :: int
  delay_threshold :: int
  recent_data_dir :: string
  secret :: "string \<Rightarrow> exn + string"
  boto3_client :: "string \<Rightarrow> string \<Rightarrow> exn option"
  get_object :: "string \<Rightarrow> string \<Rightarrow> exn + string"
  list_objects_v2 :: "string \<Rightarrow> string \<Rightarrow> exn + string list"
  glob :: "string \<Rightarrow> string list"
  path_exists :: "string \<Rightarrow> bool"
  read_csv_file :: "string \<Rightarrow> exn + frame"
  read_csv_body :: "string \<Rightarrow> exn + frame"
  to_datetime :: "cell list \<Rightarrow> exn + cell list"
  delay_seconds :: "cell \<Rightarrow> cell \<Rightarrow> exn + cell"
  series_min :: "cell list \<Rightarrow> exn + cell"
  series_max :: "cell list \<Rightarrow> exn + cell"
  st_audio :: "exn option"

section \<open>What the page shows\<close>

text \<open>
  A figure as \<open>create_plot\<close> builds it: the two line series, the horizontal lines, the
  horizontal bands (lower edge, upper edge, fill colour) and the fixed range of the y axis.
\<close>

record trace =
  trace_name :: string
  trace_mode :: string
  trace_x :: "cell list"
  trace_y :: "cell list"

record figure =
  traces :: "trace list"
  hlines :: "cell list"
  hrects :: "(cell \<times> cell \<times> string) list"
  title_device :: int
  yaxis_range :: "(cell \<times> cell) option"

text \<open>
  One constructor per display call of the script; the argument of an error message is the
  exception whose text it shows.
\<close>

datatype widget =
    ErrorFailedS3Client exn
  | ErrorAccessingS3 exn
  | ErrorLoadingS3Data exn
  | ErrorLoadingData int exn
  | ErrorListingS3 exn
  | ErrorProcessingData int exn
  | ErrorProcessingDevice int exn
  | ErrorFrequencyOutOfBounds
  | ErrorDelayExceeds cell int
  | WarningNoDeviceData
  | WarningNoValidData int
  | SuccessWithinBounds
  | MetricFrequency int cell
  | MetricDelay cell
  | Audio
  | PlotlyChart figure

text \<open>A widget is shown in the main area or in the column \<^verbatim>\<open>cols[i]\<close> of a device.\<close>

datatype region = Main | Col nat

type_synonym display = "(region \<times> widget) list"

section \<open>Data Source Adapter\<close>

definition s3_prefix :: string where
  "s3_prefix = ''recent_data/''"

text \<open>
  \<open>get_s3_client\<close> (lines 33 to 44): the messages shown and whether a client was made.
\<close>

definition get_s3_client :: "world \<Rightarrow> display \<times> bool" where
  "get_s3_client w =
     (case bind_exn (secret w ''S3_KEY'') (\<lambda>k.
             bind_exn (secret w ''S3_SECRET'') (\<lambda>s.
               (case boto3_client w k s of Some e \<Rightarrow> Inl e | None \<Rightarrow> Inr ()))) of
        Inl e \<Rightarrow> ([(Main, ErrorFailedS3Client e)], False)
      | Inr _ \<Rightarrow> ([], True))"

text \<open>
  The body of the outer \<^verbatim>\<open>try\<close> of \<open>load_s3_data\<close> (lines 52 to 72). The inner handler
  (line 69) catches \<^verbatim>\<open>ClientError\<close> only; any other exception of the bounds part leaves
  the inner \<^verbatim>\<open>try\<close>.
\<close>

definition data_key :: "int \<Rightarrow> string" where
  "data_key device_num = s3_prefix @ ''recent_data_device_'' @ py_str device_num @ ''.csv''"

definition bounds_key :: "int \<Rightarrow> string" where
  "bounds_key device_num = s3_prefix @ ''freq_bounds_device_'' @ py_str device_num @ ''.csv''"

definition load_s3_body :: "world \<Rightarrow> string \<Rightarrow> int \<Rightarrow> exn + (frame \<times> frame option)" where
  "load_s3_body w s3_bucket device_num =
     bind_exn (get_object w s3_bucket (data_key device_num)) (\<lambda>body.
     bind_exn (read_csv_body w body) (\<lambda>data0.
     bind_exn (getitem data0 ''time'') (\<lambda>t.
     bind_exn (to_datetime w t) (\<lambda>t'.
       (let data = setitem data0 ''time'' t'
        in case bind_exn (get_object w s3_bucket (bounds_key device_num)) (read_csv_body w) of
             Inr bounds \<Rightarrow> Inr (data, Some bounds)
           | Inl (ClientError code) \<Rightarrow> Inr (data, None)
           | Inl e \<Rightarrow> Inl e)))))"

definition load_s3_data :: "world \<Rightarrow> string \<Rightarrow> int \<Rightarrow> display \<times> frame option \<times> frame option" where
  "load_s3_data w s3_bucket device_num =
     (case get_s3_client w of
        (msgs, False) \<Rightarrow> (msgs, None, None)
      | (msgs, True) \<Rightarrow>
          (case load_s3_body w s3_bucket device_num of
             Inr (data, bounds) \<Rightarrow> (msgs, Some data, bounds)
           | Inl (ClientError code) \<Rightarrow>
               if code = ''NoSuchKey'' then (msgs, None, None)
               else (msgs @ [(Main, ErrorAccessingS3 (ClientError code))], None, None)
           | Inl e \<Rightarrow> (msgs @ [(Main, ErrorLoadingS3Data e)], None, None)))"

text \<open>The body of the \<^verbatim>\<open>try\<close> of \<open>load_data\<close> in local mode (lines 90 to 103).\<close>

definition recent_data_file :: "world \<Rightarrow> int \<Rightarrow> string" where
  "recent_data_file w device_num =
     os_path_join (recent_data_dir w) (''recent_data_device_'' @ py_str device_num @ ''.csv'')"

definition bounds_file :: "world \<Rightarrow> int \<Rightarrow> string" where
  "bounds_file w device_num =
     os_path_join (recent_data_dir w) (''freq_bounds_device_'' @ py_str device_num @ ''.csv'')"

definition load_local_body :: "world \<Rightarrow> int \<Rightarrow> exn + (frame option \<times> frame option)" where
  "load_local_body w device_num =
     (if \<not> path_exists w (recent_data_file w device_num) then Inr (None, None)
      else
        bind_exn (read_csv_file w (recent_data_file w device_num)) (\<lambda>data0.
        bind_exn (getitem data0 ''time'') (\<lambda>t.
        bind_exn (to_datetime w t) (\<lambda>t'.
          (let data = setitem data0 ''time'' t'
           in if path_exists w (bounds_file w device_num)
              then bind_exn (read_csv_file w (bounds_file w device_num))
                     (\<lambda>bounds. Inr (Some data, Some bounds))
              else Inr (Some data, None))))))"

definition load_data :: "world \<Rightarrow> string \<Rightarrow> int \<Rightarrow> display \<times> frame option \<times> frame option" where
  "load_data w s3_bucket device_num =
     (if use_s3 w then load_s3_data w s3_bucket device_num
      else
        (case load_local_body w device_num of
           Inr (data, bounds) \<Rightarrow> ([], data, bounds)
         | Inl e \<Rightarrow> ([(Main, ErrorLoadingData device_num e)], None, None)))"

section \<open>Chart Renderer\<close>

text \<open>
  \<open>create_plot\<close> (lines 109 to 177). The bound lines and bands are added whenever
  \<^verbatim>\<open>bounds\<close> is not \<^verbatim>\<open>None\<close>; the y range is fixed when the frame is moreover not empty
  and has both columns \<^verbatim>\<open>y_min\<close> and \<^verbatim>\<open>y_max\<close>.
\<close>

definition bound_shapes :: "world \<Rightarrow> frame \<Rightarrow> frame option \<Rightarrow> exn + (cell list \<times> (cell \<times> cell \<times> string) list)" where
  "bound_shapes w data bounds =
     (case bounds of
        None \<Rightarrow> Inr ([], [])
      | Some b \<Rightarrow>
          bind_exn (bind_exn (getitem b ''min_freq'') iloc_first) (\<lambda>min_freq.
          bind_exn (bind_exn (getitem b ''max_freq'') iloc_first) (\<lambda>max_freq.
          bind_exn (bind_exn (getitem data ''freq_filtered'') (series_min w)) (\<lambda>lo.
          bind_exn (bind_exn (getitem data ''freq_filtered'') (series_max w)) (\<lambda>hi.
            Inr ([min_freq, max_freq],
                 [(min_freq, max_freq, ''lightgreen''),
                  (lo, min_freq, ''red''),
                  (max_freq, hi, ''red'')]))))))"

definition y_limits :: "frame option \<Rightarrow> exn + (cell \<times> cell) option" where
  "y_limits bounds =
     (case bounds of
        None \<Rightarrow> Inr None
      | Some b \<Rightarrow>
          if frame_empty b then Inr None
          else if ''y_min'' \<in> set (columns b) \<and> ''y_max'' \<in> set (columns b)
          then bind_exn (bind_exn (getitem b ''y_min'') iloc_first) (\<lambda>y_min.
               bind_exn (bind_exn (getitem b ''y_max'') iloc_first) (\<lambda>y_max.
                 Inr (Some (y_min, y_max))))
          else Inr None)"

definition create_plot :: "world \<Rightarrow> frame \<Rightarrow> frame option \<Rightarrow> int \<Rightarrow> exn + figure" where
  "create_plot w data bounds device_num =
     bind_exn (getitem data ''time'') (\<lambda>x1.
     bind_exn (getitem data ''freq'') (\<lambda>y1.
     bind_exn (getitem data ''time'') (\<lambda>x2.
     bind_exn (getitem data ''freq_filtered'') (\<lambda>y2.
     bind_exn (bound_shapes w data bounds) (\<lambda>shapes.
     bind_exn (y_limits bounds) (\<lambda>yr.
       Inr \<lparr>traces =
              [\<lparr>trace_name = ''Raw Frequency'', trace_mode = ''lines+markers'',
                trace_x = x1, trace_y = y1\<rparr>,
               \<lparr>trace_name = ''Filtered Frequency'', trace_mode = ''lines'',
                trace_x = x2, trace_y = y2\<rparr>],
            hlines = fst shapes,
            hrects = snd shapes,
            title_device = device_num,
            yaxis_range = yr\<rparr>))))))"

section \<open>Bounds and Staleness Evaluator\<close>

text \<open>
  Lines 256 to 259: the two booleans \<^verbatim>\<open>freq_out_of_bounds\<close> and \<^verbatim>\<open>delay_too_large\<close>,
  from the first row of the bounds, the current filtered frequency, the delay and the
  threshold of the sidebar.
\<close>

definition freq_out_of_bounds :: "cell \<Rightarrow> cell \<Rightarrow> cell \<Rightarrow> exn + bool" where
  "freq_out_of_bounds current_freq min_freq max_freq =
     py_or (py_lt current_freq min_freq) (py_gt current_freq max_freq)"

definition delay_too_large :: "world \<Rightarrow> cell \<Rightarrow> exn + bool" where
  "delay_too_large w delay = py_gt delay (Num (of_int (delay_threshold w)))"

definition evaluator :: "world \<Rightarrow> frame \<Rightarrow> cell \<Rightarrow> cell \<Rightarrow> exn + (bool \<times> bool)" where
  "evaluator w b current_freq delay =
     bind_exn (bind_exn (getitem b ''min_freq'') iloc_first) (\<lambda>min_freq.
     bind_exn (bind_exn (getitem b ''max_freq'') iloc_first) (\<lambda>max_freq.
     bind_exn (freq_out_of_bounds current_freq min_freq max_freq) (\<lambda>fob.
     bind_exn (delay_too_large w delay) (\<lambda>dtl.
       Inr (fob, dtl)))))"

text \<open>
  Lines 234 to 240: the current frequency and the delay. The time zone is read from the
  bounds before anything is shown, whether or not the bounds are there.
\<close>

definition current_values :: "world \<Rightarrow> frame \<Rightarrow> frame option \<Rightarrow> exn + (cell \<times> cell)" where
  "current_values w data bounds =
     bind_exn (bind_exn (getitem data ''freq_filtered'') iloc_last) (\<lambda>current_freq.
     bind_exn (bind_exn (getitem data ''time'') iloc_last) (\<lambda>last_time.
     bind_exn (bind_exn (getitem_opt bounds ''timezone'') iloc_first) (\<lambda>timezone.
     bind_exn (delay_seconds w last_time timezone) (\<lambda>delay.
       Inr (current_freq, delay)))))"

section \<open>Dashboard Loop\<close>

text \<open>
  The steps of the inner \<^verbatim>\<open>try\<close> (lines 232 to 277) return what they have shown, the
  list \<^verbatim>\<open>audio_elements\<close> afterwards, and the exception that ended them, if any.
  \<^verbatim>\<open>audio_elements\<close> is a list of the players started; only its length is read.
\<close>

type_synonym step = "display \<times> unit list \<times> exn option"

text \<open>
  Lines 255 to 273: the bound check, the banners and the audio cue. The banners are
  shown before the player is made; when \<^verbatim>\<open>st.audio\<close> raises, nothing is appended to
  \<^verbatim>\<open>audio_elements\<close> and the exception leaves the \<^verbatim>\<open>try\<close>.
\<close>

definition check_bounds :: "world \<Rightarrow> nat \<Rightarrow> frame option \<Rightarrow> cell \<Rightarrow> cell \<Rightarrow> unit list \<Rightarrow> step" where
  "check_bounds w i bounds current_freq delay audio_elements =
     (case bounds of
        None \<Rightarrow> ([], audio_elements, None)
      | Some b \<Rightarrow>
          if frame_empty b then ([], audio_elements, None)
          else
            (case evaluator w b current_freq delay of
               Inl e \<Rightarrow> ([], audio_elements, Some e)
             | Inr (fob, dtl) \<Rightarrow>
                 if fob \<or> dtl then
                   (let banners =
                          (if fob then [(Col i, ErrorFrequencyOutOfBounds)] else []) @
                          (if dtl then [(Col i, ErrorDelayExceeds delay (delay_threshold w))] else [])
                    in if length audio_elements = 0 then
                         (case st_audio w of
                            Some e \<Rightarrow> (banners, audio_elements, Some e)
                          | None \<Rightarrow> (banners @ [(Col i, Audio)], audio_elements @ [()], None))
                       else (banners, audio_elements, None))
                 else ([(Col i, SuccessWithinBounds)], audio_elements, None)))"

text \<open>Lines 242 to 252: the two metrics; each text is formatted before it is shown.\<close>

definition show_metrics :: "nat \<Rightarrow> int \<Rightarrow> cell \<Rightarrow> cell \<Rightarrow> display \<times> exn option" where
  "show_metrics i device_num current_freq delay =
     (case fmt_1f current_freq of
        Inl e \<Rightarrow> ([], Some e)
      | Inr f \<Rightarrow>
          (case fmt_1f delay of
             Inl e \<Rightarrow> ([(Col i, MetricFrequency device_num f)], Some e)
           | Inr d \<Rightarrow> ([(Col i, MetricFrequency device_num f), (Col i, MetricDelay d)], None)))"

text \<open>The whole body of the inner \<^verbatim>\<open>try\<close>.\<close>

definition process_data :: "world \<Rightarrow> nat \<Rightarrow> int \<Rightarrow> frame \<Rightarrow> frame option \<Rightarrow> unit list \<Rightarrow> step" where
  "process_data w i device_num data bounds audio_elements =
     (case current_values w data bounds of
        Inl e \<Rightarrow> ([], audio_elements, Some e)
      | Inr (current_freq, delay) \<Rightarrow>
          (case show_metrics i device_num current_freq delay of
             (shown, Some e) \<Rightarrow> (shown, audio_elements, Some e)
           | (shown, None) \<Rightarrow>
               (case check_bounds w i bounds current_freq delay audio_elements of
                  (banners, audio', Some e) \<Rightarrow> (shown @ banners, audio', Some e)
                | (banners, audio', None) \<Rightarrow>
                    (case create_plot w data bounds device_num of
                       Inl e \<Rightarrow> (shown @ banners, audio', Some e)
                     | Inr fig \<Rightarrow> (shown @ banners @ [(Col i, PlotlyChart fig)], audio', None)))))"

text \<open>
  One iteration of the loop over the devices (lines 227 to 285). \<open>load_data\<close> catches
  every exception itself, so the outer handler of line 283 has nothing to catch.
\<close>

definition process_device :: "world \<Rightarrow> string \<Rightarrow> unit list \<Rightarrow> nat \<Rightarrow> int \<Rightarrow> display \<times> unit list" where
  "process_device w s3_bucket audio_elements i device_num =
     (case load_data w s3_bucket device_num of
        (msgs, None, bounds) \<Rightarrow> (msgs @ [(Col i, WarningNoValidData device_num)], audio_elements)
      | (msgs, Some data, bounds) \<Rightarrow>
          if frame_empty data
          then (msgs @ [(Col i, WarningNoValidData device_num)], audio_elements)
          else
            (case process_data w i device_num data bounds audio_elements of
               (shown, audio', None) \<Rightarrow> (msgs @ shown, audio')
             | (shown, audio', Some e) \<Rightarrow>
                 (msgs @ shown @ [(Col i, ErrorProcessingData device_num e)], audio')))"

text \<open>
  \<^verbatim>\<open>for i, device_num in enumerate(device_numbers)\<close>, from index \<open>i\<close> on, threading
  \<^verbatim>\<open>audio_elements\<close>.
\<close>

fun process_devices :: "world \<Rightarrow> string \<Rightarrow> unit list \<Rightarrow> nat \<Rightarrow> int list \<Rightarrow> display \<times> unit list" where
  "process_devices w s3_bucket audio_elements i [] = ([], audio_elements)"
| "process_devices w s3_bucket audio_elements i (device_num # rest) =
     (case process_device w s3_bucket audio_elements i device_num of
        (shown, audio') \<Rightarrow>
          (case process_devices w s3_bucket audio' (Suc i) rest of
             (shown', audio'') \<Rightarrow> (shown @ shown', audio'')))"

subsection \<open>Device discovery\<close>

text \<open>\<^verbatim>\<open>int(f.split('_')[-1].split('.')[0])\<close>\<close>

definition device_number :: "string \<Rightarrow> exn + int" where
  "device_number f = py_int (hd (split CHR ''.'' (last (split CHR ''_'' f))))"

text \<open>The list comprehension: the numbers in the order of the files, or the first exception.\<close>

fun device_numbers_of :: "string list \<Rightarrow> exn + int list" where
  "device_numbers_of [] = Inr []"
| "device_numbers_of (f # fs) =
     bind_exn (device_number f) (\<lambda>n.
     bind_exn (device_numbers_of fs) (\<lambda>ns. Inr (n # ns)))"

text \<open>
  Lines 199 to 216. In remote mode the listing and the parsing are inside a \<^verbatim>\<open>try\<close>;
  in local mode they are not, so an exception there ends the script.
\<close>

definition list_prefix :: string where
  "list_prefix = rstrip_char CHR ''/'' s3_prefix @ ''/recent_data_device_''"

definition glob_pattern :: "world \<Rightarrow> string" where
  "glob_pattern w = os_path_join (recent_data_dir w) ''recent_data_device_*.csv''"

definition discover :: "world \<Rightarrow> string \<Rightarrow> display \<times> (exn + int list)" where
  "discover w s3_bucket =
     (if use_s3 w then
        (case get_s3_client w of
           (msgs, False) \<Rightarrow> (msgs, Inr [])
         | (msgs, True) \<Rightarrow>
             (case bind_exn (list_objects_v2 w s3_bucket list_prefix) device_numbers_of of
                Inl e \<Rightarrow> (msgs @ [(Main, ErrorListingS3 e)], Inr [])
              | Inr device_numbers \<Rightarrow> (msgs, Inr device_numbers)))
      else ([], device_numbers_of (glob w (glob_pattern w))))"

subsection \<open>One run of the script\<close>

text \<open>
  How a run ends: it sleeps for the refresh interval and calls \<^verbatim>\<open>st.rerun()\<close>, or it
  reaches the end of the script without either, or an exception leaves the script.
\<close>

datatype ending = SleepAndRerun int | EndOfScript | Uncaught exn

text \<open>
  The script from line 22 on. Line 23 reads the bucket name in remote mode only; in local
  mode the name is never used. The sleep and the rerun (lines 288 to 290) belong to the
  \<^verbatim>\<open>else\<close> branch of line 221.
\<close>

definition s3_bucket_of :: "world \<Rightarrow> exn + string" where
  "s3_bucket_of w = (if use_s3 w then secret w ''S3_BUCKET_NAME'' else Inr [])"

definition script :: "world \<Rightarrow> display \<times> ending" where
  "script w =
     (case s3_bucket_of w of
        Inl e \<Rightarrow> ([], Uncaught e)
      | Inr s3_bucket \<Rightarrow>
          (case discover w s3_bucket of
             (msgs, Inl e) \<Rightarrow> (msgs, Uncaught e)
           | (msgs, Inr device_numbers) \<Rightarrow>
               if device_numbers = [] then (msgs @ [(Main, WarningNoDeviceData)], EndOfScript)
               else
                 (case process_devices w s3_bucket [] 0 device_numbers of
                    (shown, audio') \<Rightarrow> (msgs @ shown, SleepAndRerun (refresh_interval w)))))"

section \<open>Reading the display\<close>

text \<open>The two alert banners, and the audio player.\<close>

fun is_alert :: "widget \<Rightarrow> bool" where
  "is_alert ErrorFrequencyOutOfBounds = True"
| "is_alert (ErrorDelayExceeds d t) = True"
| "is_alert _ = False"

fun is_audio :: "widget \<Rightarrow> bool" where
  "is_audio Audio = True"
| "is_audio _ = False"

definition alert_shown :: "display \<Rightarrow> bool" where
  "alert_shown d = list_ex (\<lambda>x. is_alert (snd x)) d"

text \<open>The regions in which an audio player was started, in order.\<close>

definition audio_regions :: "display \<Rightarrow> region list" where
  "audio_regions d = map fst (filter (\<lambda>x. is_audio (snd x)) d)"

text \<open>
  A device satisfies an alert condition when its iteration shows an alert banner. The
  banners of a device do not depend on its column or on \<^verbatim>\<open>audio_elements\<close>
  (lemma \<open>process_device_alert\<close> below).
\<close>

definition alerting :: "world \<Rightarrow> string \<Rightarrow> int \<Rightarrow> bool" where
  "alerting w s3_bucket device_num = alert_shown (fst (process_device w s3_bucket [] 0 device_num))"

text \<open>
  Every iteration of the device loop ends with one widget that names its device: the
  no-data warning, the inline error, or the chart. \<open>shown_devices\<close> lists these with
  their regions.
\<close>

fun closes :: "widget \<Rightarrow> int option" where
  "closes (WarningNoValidData n) = Some n"
| "closes (ErrorProcessingData n e) = Some n"
| "closes (PlotlyChart fig) = Some (title_device fig)"
| "closes _ = None"

definition shown_devices :: "display \<Rightarrow> (region \<times> int) list" where
  "shown_devices d =
     List.map_filter (\<lambda>x. case closes (snd x) of None \<Rightarrow> None | Some n \<Rightarrow> Some (fst x, n)) d"

section \<open>Example environments\<close>

text \<open>
  Concrete environments for the scenarios. The clock stands 30 seconds after
  2024-01-01T00:00:00 (1704067200 seconds), the only timestamp text and \<^verbatim>\<open>UTC\<close> the
  only time zone these environments know.
\<close>

definition example_to_datetime :: "cell list \<Rightarrow> exn + cell list" where
  "example_to_datetime xs =
     (if list_all (\<lambda>c. c = Str ''2024-01-01T00:00:00'') xs
      then Inr (map (\<lambda>c. Num 1704067200) xs) else Inl ValueError)"

definition example_delay_seconds :: "cell \<Rightarrow> cell \<Rightarrow> exn + cell" where
  "example_delay_seconds last_time timezone =
     (case (last_time, timezone) of
        (Num t, Str z) \<Rightarrow>
          if z = ''UTC'' then Inr (Num (1704067230 - t)) else Inl (OtherError ''UnknownTimeZoneError'')
      | (NaN, Str z) \<Rightarrow>
          if z = ''UTC'' then Inr NaN else Inl (OtherError ''UnknownTimeZoneError'')
      | _ \<Rightarrow> Inl TypeError)"

definition example_series_min :: "cell list \<Rightarrow> exn + cell" where
  "example_series_min xs =
     (case [a. Num a \<leftarrow> xs] of [] \<Rightarrow> Inr NaN | a # as \<Rightarrow> Inr (Num (fold min as a)))"

definition example_series_max :: "cell list \<Rightarrow> exn + cell" where
  "example_series_max xs =
     (case [a. Num a \<leftarrow> xs] of [] \<Rightarrow> Inr NaN | a # as \<Rightarrow> Inr (Num (fold max as a)))"


text \<open>
  A local directory: \<open>files\<close> gives the files that exist with the outcome of parsing
  each, \<open>listing\<close> what \<^verbatim>\<open>glob\<close> returns, in its order.
\<close>

definition local_world :: "(string \<times> (exn + frame)) list \<Rightarrow> string list \<Rightarrow> world" where
  "local_world files listing =
     \<lparr>use_s3 = False, refresh_interval = 1, delay_threshold = 60,
      recent_data_dir = ''/app/artifacts/recent_data'',
      secret = (\<lambda>k. Inl (KeyError k)),
      boto3_client = (\<lambda>k s. None),
      get_object = (\<lambda>b k. Inl (ClientError ''NoSuchKey'')),
      list_objects_v2 = (\<lambda>b p. Inr []),
      glob = (\<lambda>p. listing),
      path_exists = (\<lambda>p. map_of files p \<noteq> None),
      read_csv_file =
        (\<lambda>p. case map_of files p of None \<Rightarrow> Inl (OtherError ''FileNotFoundError'') | Some r \<Rightarrow> r),
      read_csv_body = (\<lambda>b. Inl (OtherError ''EmptyDataError'')),
      to_datetime = example_to_datetime,
      delay_seconds = example_delay_seconds,
      series_min = example_series_min,
      series_max = example_series_max,
      st_audio = None\<rparr>"

text \<open>
  A bucket: \<open>objects\<close> gives the outcome of fetching each key (a key not listed is not
  found), \<open>parsed\<close> the outcome of parsing each body, \<open>listing\<close> the outcome of the
  listing call.
\<close>

definition s3_world ::
  "(string \<times> (exn + string)) list \<Rightarrow> (string \<times> (exn + frame)) list \<Rightarrow> exn + string list \<Rightarrow> world" where
  "s3_world objects parsed listing =
     \<lparr>use_s3 = True, refresh_interval = 1, delay_threshold = 60,
      recent_data_dir = ''/app/artifacts/recent_data'',
      secret = (\<lambda>k. Inr k),
      boto3_client = (\<lambda>k s. None),
      get_object =
        (\<lambda>b k. case map_of objects k of None \<Rightarrow> Inl (ClientError ''NoSuchKey'') | Some r \<Rightarrow> r),
      list_objects_v2 = (\<lambda>b p. listing),
      glob = (\<lambda>p. []),
      path_exists = (\<lambda>p. False),
      read_csv_file = (\<lambda>p. Inl (OtherError ''FileNotFoundError'')),
      read_csv_body =
        (\<lambda>b. case map_of parsed b of None \<Rightarrow> Inl (OtherError ''EmptyDataError'') | Some r \<Rightarrow> r),
      to_datetime = example_to_datetime,
      delay_seconds = example_delay_seconds,
      series_min = example_series_min,
      series_max = example_series_max,
      st_audio = None\<rparr>"

text \<open>
  One sample row (time 2024-01-01T00:00:00, raw frequency 100, filtered frequency \<open>v\<close>)
  and one bounds row (90, 110, UTC); the same bounds without any row.
\<close>

definition sample_frame :: "real \<Rightarrow> frame" where
  "sample_frame v =
     [(''time'', [Str ''2024-01-01T00:00:00'']), (''freq'', [Num 100]), (''freq_filtered'', [Num v])]"

definition bounds_frame :: frame where
  "bounds_frame = [(''min_freq'', [Num 90]), (''max_freq'', [Num 110]), (''timezone'', [Str ''UTC''])]"

definition bounds_no_rows :: frame where
  "bounds_no_rows = [(''min_freq'', []), (''max_freq'', []), (''timezone'', [])]"

definition data_path :: "string \<Rightarrow> string" where
  "data_path n = ''/app/artifacts/recent_data/recent_data_device_'' @ n @ ''.csv''"

definition bounds_path :: "string \<Rightarrow> string" where
  "bounds_path n = ''/app/artifacts/recent_data/freq_bounds_device_'' @ n @ ''.csv''"

text \<open>The directories and buckets of the scenarios.\<close>

definition empty_directory :: world where
  "empty_directory = local_world [] []"

definition scenario_directory :: world where
  "scenario_directory =
     local_world
       [(data_path ''1'', Inr (sample_frame 98)), (bounds_path ''1'', Inr bounds_frame)]
       [data_path ''1'']"

definition no_bounds_directory :: world where
  "no_bounds_directory = local_world [(data_path ''1'', Inr (sample_frame 98))] [data_path ''1'']"

definition empty_bounds_directory :: world where
  "empty_bounds_directory =
     local_world
       [(data_path ''1'', Inr (sample_frame 98)), (bounds_path ''1'', Inr bounds_no_rows)]
       [data_path ''1'']"

definition bounds_only_directory :: world where
  "bounds_only_directory = local_world [(bounds_path ''3'', Inr bounds_frame)] []"

definition unsorted_directory :: world where
  "unsorted_directory =
     local_world
       [(data_path ''2'', Inr (sample_frame 98)), (bounds_path ''2'', Inr bounds_frame),
        (data_path ''1'', Inr (sample_frame 98)), (bounds_path ''1'', Inr bounds_frame)]
       [data_path ''2'', data_path ''1'']"

definition bad_name_directory :: world where
  "bad_name_directory = local_world [] [data_path ''abc'']"

definition alerting_directory :: world where
  "alerting_directory =
     local_world
       [(data_path ''1'', Inr (sample_frame 98)), (bounds_path ''1'', Inr bounds_frame),
        (data_path ''2'', Inr (sample_frame 120)), (bounds_path ''2'', Inr bounds_frame),
        (data_path ''3'', Inr (sample_frame 80)), (bounds_path ''3'', Inr bounds_frame)]
       [data_path ''1'', data_path ''2'', data_path ''3'']"

definition unplayable_directory :: world where
  "unplayable_directory = alerting_directory\<lparr>st_audio := Some (OtherError ''MediaFileStorageError'')\<rparr>"

definition unparsable_bounds_bucket :: world where
  "unparsable_bounds_bucket =
     s3_world
       [(data_key 1, Inr ''sample''), (bounds_key 1, Inr ''garbage'')]
       [(''sample'', Inr (sample_frame 98)), (''garbage'', Inl (OtherError ''ParserError''))]
       (Inr [data_key 1])"

definition denied_bounds_bucket :: world where
  "denied_bounds_bucket =
     s3_world
       [(data_key 1, Inr ''sample''), (bounds_key 1, Inl (ClientError ''AccessDenied''))]
       [(''sample'', Inr (sample_frame 98))]
       (Inr [data_key 1])"

definition bad_key_bucket :: world where
  "bad_key_bucket = s3_world [] [] (Inr [''recent_data/recent_data_device_abc.csv''])"

text \<open>The sample frame after the conversion of its time column.\<close>

definition converted_frame :: "real \<Rightarrow> frame" where
  "converted_frame v = setitem (sample_frame v) ''time'' [Num 1704067200]"

section \<open>Properties\<close>

subsection \<open>Reading the display\<close>

lemma alert_shown_append [simp]: "alert_shown (xs @ ys) = (alert_shown xs \<or> alert_shown ys)"
  by (simp add: alert_shown_def list_ex_iff) blast

lemma audio_regions_append [simp]: "audio_regions (xs @ ys) = audio_regions xs @ audio_regions ys"
  by (simp add: audio_regions_def)

lemma alert_shown_simps [simp]:
  "alert_shown [] = False"
  "alert_shown ((r, x) # xs) = (is_alert x \<or> alert_shown xs)"
  by (simp_all add: alert_shown_def)

lemma audio_regions_simps [simp]:
  "audio_regions [] = []"
  "audio_regions ((r, x) # xs) = (if is_audio x then r # audio_regions xs else audio_regions xs)"
  by (simp_all add: audio_regions_def)

lemma shown_devices_append [simp]:
  "shown_devices (xs @ ys) = shown_devices xs @ shown_devices ys"
  by (simp add: shown_devices_def map_filter_def)

lemma shown_devices_simps [simp]:
  "shown_devices [] = []"
  "shown_devices ((r, x) # xs) =
     (case closes x of None \<Rightarrow> shown_devices xs | Some n \<Rightarrow> (r, n) # shown_devices xs)"
  by (simp_all add: shown_devices_def map_filter_def split: option.splits)

subsection \<open>The evaluator\<close>

lemma evaluator_numbers:
  assumes "bind_exn (getitem b ''min_freq'') iloc_first = Inr (Num lo)"
    and "bind_exn (getitem b ''max_freq'') iloc_first = Inr (Num hi)"
  shows "evaluator w b (Num v) (Num d) = Inr (v < lo \<or> hi < v, real_of_int (delay_threshold w) < d)"
  using assms
  by (simp add: evaluator_def bind_exn_def freq_out_of_bounds_def delay_too_large_def py_or_def py_gt_def)

text \<open>
  Claim C2. For a bounds frame whose first row gives the numbers \<open>lo\<close> and \<open>hi\<close> and a
  current filtered frequency \<open>v\<close>, \<^verbatim>\<open>freq_out_of_bounds\<close> is true exactly when
  \<open>v < lo\<close> or \<open>v > hi\<close>; it is false on the whole closed interval, both end points
  included; and the banner "Frequency out of bounds!" is shown in the column of the device
  in exactly those cases.
\<close>

theorem frequency_out_of_bounds_iff:
  assumes "bind_exn (getitem b ''min_freq'') iloc_first = Inr (Num lo)"
    and "bind_exn (getitem b ''max_freq'') iloc_first = Inr (Num hi)"
    and "\<not> frame_empty b"
  shows "map_sum id fst (evaluator w b (Num v) (Num d)) = Inr (v < lo \<or> v > hi) \<and>
         (lo \<le> v \<and> v \<le> hi \<longrightarrow> map_sum id fst (evaluator w b (Num v) (Num d)) = Inr False) \<and>
         ((Col i, ErrorFrequencyOutOfBounds) \<in> set (fst (check_bounds w i (Some b) (Num v) (Num d) a))
            \<longleftrightarrow> v < lo \<or> v > hi)"
  using assms(3) evaluator_numbers [OF assms(1,2), of w v d]
  by (auto simp: check_bounds_def Let_def split: option.splits)

theorem frequency_out_of_bounds_iff_witness:
  "bind_exn (getitem bounds_frame ''min_freq'') iloc_first = Inr (Num 90) \<and>
   bind_exn (getitem bounds_frame ''max_freq'') iloc_first = Inr (Num 110) \<and>
   \<not> frame_empty bounds_frame \<and>
   map_sum id fst (evaluator scenario_directory bounds_frame (Num 98) (Num 30)) = Inr False \<and>
   map_sum id fst (evaluator scenario_directory bounds_frame (Num 90) (Num 30)) = Inr False \<and>
   map_sum id fst (evaluator scenario_directory bounds_frame (Num 110) (Num 30)) = Inr False \<and>
   map_sum id fst (evaluator scenario_directory bounds_frame (Num 89) (Num 30)) = Inr True \<and>
   map_sum id fst (evaluator scenario_directory bounds_frame (Num 111) (Num 30)) = Inr True"
proof -
  have h1: "bind_exn (getitem bounds_frame ''min_freq'') iloc_first = Inr (Num 90)" by code_simp
  have h2: "bind_exn (getitem bounds_frame ''max_freq'') iloc_first = Inr (Num 110)" by code_simp
  have h3: "\<not> frame_empty bounds_frame" by code_simp
  note t = frequency_out_of_bounds_iff [OF h1 h2 h3, where w = scenario_directory and d = 30 and i = 0 and a = "[]"]
  show ?thesis using h1 h2 h3 t [where v = 98] t [where v = 90] t [where v = 110] t [where v = 89] t [where v = 111]
    by simp
qed

text \<open>
  Claim C3. For a delay of \<open>d\<close> seconds and the threshold \<open>t\<close> of the sidebar,
  \<^verbatim>\<open>delay_too_large\<close> is true exactly when \<open>d > t\<close>; a delay equal to the threshold does
  not exceed it; and the banner "Delay exceeds threshold" is shown in exactly those cases.
\<close>

theorem delay_exceeded_iff:
  assumes "bind_exn (getitem b ''min_freq'') iloc_first = Inr (Num lo)"
    and "bind_exn (getitem b ''max_freq'') iloc_first = Inr (Num hi)"
    and "\<not> frame_empty b"
    and "t = delay_threshold w"
  shows "map_sum id snd (evaluator w b (Num v) (Num d)) = Inr (d > real_of_int t) \<and>
         (d = real_of_int t \<longrightarrow> map_sum id snd (evaluator w b (Num v) (Num d)) = Inr False) \<and>
         ((Col i, ErrorDelayExceeds (Num d) t) \<in> set (fst (check_bounds w i (Some b) (Num v) (Num d) a))
            \<longleftrightarrow> d > real_of_int t)"
  using assms(3,4) evaluator_numbers [OF assms(1,2), of w v d]
  by (auto simp: check_bounds_def Let_def split: option.splits)

theorem delay_exceeded_iff_witness:
  "bind_exn (getitem bounds_frame ''min_freq'') iloc_first = Inr (Num 90) \<and>
   bind_exn (getitem bounds_frame ''max_freq'') iloc_first = Inr (Num 110) \<and>
   \<not> frame_empty bounds_frame \<and>
   delay_threshold scenario_directory = 60 \<and>
   map_sum id snd (evaluator scenario_directory bounds_frame (Num 98) (Num 30)) = Inr False \<and>
   map_sum id snd (evaluator scenario_directory bounds_frame (Num 98) (Num 60)) = Inr False \<and>
   map_sum id snd (evaluator scenario_directory bounds_frame (Num 98) (Num 61)) = Inr True"
proof -
  have h1: "bind_exn (getitem bounds_frame ''min_freq'') iloc_first = Inr (Num 90)" by code_simp
  have h2: "bind_exn (getitem bounds_frame ''max_freq'') iloc_first = Inr (Num 110)" by code_simp
  have h3: "\<not> frame_empty bounds_frame" by code_simp
  have h4: "60 = delay_threshold scenario_directory" by code_simp
  note t = delay_exceeded_iff [OF h1 h2 h3 h4, where v = 98 and i = 0 and a = "[]"]
  show ?thesis using h1 h2 h3 h4 t [where d = 30] t [where d = 60] t [where d = 61]
    by simp
qed

subsection \<open>Absent and empty bounds\<close>

lemma process_data_no_bounds:
  "\<exists>e. process_data w i device_num data None audio_elements = ([], audio_elements, Some e)"
  by (auto simp: process_data_def current_values_def getitem_opt_def bind_exn_def split: sum.splits)

text \<open>
  Claim C1 says that a device with a non-empty sample window and no bounds record still
  gets its two metrics, without any alert. The script reads the time zone from the bounds
  on line 236, before the metrics and before the test \<^verbatim>\<open>bounds is not None\<close> of line 255:
  with the bounds absent this raises, the handler of line 278 shows the inline error, and
  neither metric nor chart is shown. No alert banner and no audio player appear either, and
  \<^verbatim>\<open>audio_elements\<close> is unchanged.
\<close>

theorem bounds_absent_no_metrics:
  assumes "load_data w s3_bucket device_num = (msgs, Some data, None)"
    and "\<not> frame_empty data"
  shows "\<exists>e. process_device w s3_bucket audio_elements i device_num =
           (msgs @ [(Col i, ErrorProcessingData device_num e)], audio_elements)"
proof -
  obtain e where "process_data w i device_num data None audio_elements = ([], audio_elements, Some e)"
    using process_data_no_bounds by blast
  then show ?thesis using assms by (simp add: process_device_def)
qed

theorem bounds_absent_no_metrics_witness:
  "load_data no_bounds_directory [] 1 = ([], Some (converted_frame 98), None) \<and>
   \<not> frame_empty (converted_frame 98) \<and>
   process_device no_bounds_directory [] [] 0 1 = ([(Col 0, ErrorProcessingData 1 TypeError)], [])"
proof -
  have h1: "load_data no_bounds_directory [] 1 = ([], Some (converted_frame 98), None)" by code_simp
  have h2: "\<not> frame_empty (converted_frame 98)" by code_simp
  from bounds_absent_no_metrics [OF h1 h2, of "[]" 0]
  obtain e where e: "process_device no_bounds_directory [] [] 0 1 = ([] @ [(Col 0, ErrorProcessingData 1 e)], [])"
    by blast
  have "fst (process_device no_bounds_directory [] [] 0 1) = [(Col 0, ErrorProcessingData 1 TypeError)]"
    by code_simp
  with e have "e = TypeError" by simp
  with e h1 h2 show ?thesis by simp
qed

lemma first_row_no_rows:
  assumes "list_all (\<lambda>c. snd c = []) b"
  shows "\<exists>e. bind_exn (getitem b name) iloc_first = Inl e"
proof (cases "map_of b name")
  case None
  then show ?thesis by (simp add: getitem_def bind_exn_def)
next
  case (Some xs)
  then have "(name, xs) \<in> set b" by (rule map_of_SomeD)
  with assms have "xs = []" by (auto simp: list_all_iff)
  with Some show ?thesis by (simp add: getitem_def bind_exn_def iloc_first_def)
qed

lemma process_data_no_rows:
  assumes "list_all (\<lambda>c. snd c = []) b"
  shows "\<exists>e. process_data w i device_num data (Some b) audio_elements = ([], audio_elements, Some e) \<and>
             (\<forall>cf lt. bind_exn (getitem data ''freq_filtered'') iloc_last = Inr cf \<longrightarrow>
                      bind_exn (getitem data ''time'') iloc_last = Inr lt \<longrightarrow>
                      bind_exn (getitem b ''timezone'') iloc_first = Inl e)"
proof -
  obtain e where e: "bind_exn (getitem b ''timezone'') iloc_first = Inl e"
    using first_row_no_rows [OF assms] by blast
  then show ?thesis
    by (cases "bind_exn (getitem data ''freq_filtered'') iloc_last";
        cases "bind_exn (getitem data ''time'') iloc_last")
       (simp_all add: process_data_def current_values_def getitem_opt_def bind_exn_def)
qed

text \<open>
  Claim C10. For a device with a non-empty sample window and a bounds frame without rows,
  the iteration shows the inline error of line 279 and nothing else of its own: no metric,
  no banner, no chart; \<^verbatim>\<open>audio_elements\<close> is unchanged. When the sample window has its
  \<^verbatim>\<open>freq_filtered\<close> and \<^verbatim>\<open>time\<close> columns, the exception shown is the one raised by the
  first-row lookup of the time zone.
\<close>

theorem empty_bounds_inline_error:
  assumes "load_data w s3_bucket device_num = (msgs, Some data, Some b)"
    and "\<not> frame_empty data"
    and "list_all (\<lambda>c. snd c = []) b"
  shows "\<exists>e. process_device w s3_bucket audio_elements i device_num =
               (msgs @ [(Col i, ErrorProcessingData device_num e)], audio_elements) \<and>
             (\<forall>cf lt. bind_exn (getitem data ''freq_filtered'') iloc_last = Inr cf \<longrightarrow>
                      bind_exn (getitem data ''time'') iloc_last = Inr lt \<longrightarrow>
                      bind_exn (getitem b ''timezone'') iloc_first = Inl e)"
proof -
  obtain e where "process_data w i device_num data (Some b) audio_elements = ([], audio_elements, Some e)"
    and "\<forall>cf lt. bind_exn (getitem data ''freq_filtered'') iloc_last = Inr cf \<longrightarrow>
                 bind_exn (getitem data ''time'') iloc_last = Inr lt \<longrightarrow>
                 bind_exn (getitem b ''timezone'') iloc_first = Inl e"
    using process_data_no_rows [OF assms(3)] by blast
  then show ?thesis using assms(1,2) by (simp add: process_device_def)
qed

theorem empty_bounds_inline_error_witness:
  "load_data empty_bounds_directory [] 1 = ([], Some (converted_frame 98), Some bounds_no_rows) \<and>
   \<not> frame_empty (converted_frame 98) \<and>
   list_all (\<lambda>c. snd c = []) bounds_no_rows \<and>
   process_device empty_bounds_directory [] [] 0 1 = ([(Col 0, ErrorProcessingData 1 IndexError)], [])"
proof -
  have h1: "load_data empty_bounds_directory [] 1 = ([], Some (converted_frame 98), Some bounds_no_rows)"
    by code_simp
  have h2: "\<not> frame_empty (converted_frame 98)" by code_simp
  have h3: "list_all (\<lambda>c. snd c = []) bounds_no_rows" by code_simp
  from empty_bounds_inline_error [OF h1 h2 h3, of "[]" 0]
  obtain e where e: "process_device empty_bounds_directory [] [] 0 1 = ([] @ [(Col 0, ErrorProcessingData 1 e)], [])"
    and t: "\<forall>cf lt. bind_exn (getitem (converted_frame 98) ''freq_filtered'') iloc_last = Inr cf \<longrightarrow>
                 bind_exn (getitem (converted_frame 98) ''time'') iloc_last = Inr lt \<longrightarrow>
                 bind_exn (getitem bounds_no_rows ''timezone'') iloc_first = Inl e"
    by blast
  have c1: "bind_exn (getitem (converted_frame 98) ''freq_filtered'') iloc_last = Inr (Num 98)" by code_simp
  have c2: "bind_exn (getitem (converted_frame 98) ''time'') iloc_last = Inr (Num 1704067200)" by code_simp
  have c3: "bind_exn (getitem bounds_no_rows ''timezone'') iloc_first = Inl IndexError" by code_simp
  from t c1 c2 c3 have "e = IndexError" by simp
  with e h1 h2 h3 show ?thesis by simp
qed

subsection \<open>The audio cue\<close>

text \<open>
  The messages of the adapter and the metrics are neither alert banners nor audio players;
  the banners of a device depend neither on its column nor on \<^verbatim>\<open>audio_elements\<close>; a
  player is started exactly when a banner is shown, \<^verbatim>\<open>audio_elements\<close> is empty and
  \<^verbatim>\<open>st.audio\<close> does not raise.
\<close>

lemma get_s3_client_quiet:
  "get_s3_client w = (msgs, ok) \<Longrightarrow> \<not> alert_shown msgs \<and> audio_regions msgs = []"
  by (auto simp: get_s3_client_def bind_exn_def split: sum.splits option.splits)

lemma load_data_quiet:
  assumes "load_data w s3_bucket device_num = (msgs, data, bounds)"
  shows "\<not> alert_shown msgs \<and> audio_regions msgs = []"
proof (cases "use_s3 w")
  case False
  with assms show ?thesis
    by (auto simp: load_data_def split: sum.splits)
next
  case True
  obtain m ok where g: "get_s3_client w = (m, ok)" by (cases "get_s3_client w")
  from get_s3_client_quiet [OF g] have q: "\<not> alert_shown m" "audio_regions m = []" by simp_all
  from assms True g q show ?thesis
    by (cases "load_s3_body w s3_bucket device_num")
       (auto simp: load_data_def load_s3_data_def split: if_splits exn.splits prod.splits bool.splits)
qed

lemma show_metrics_quiet:
  "show_metrics i device_num cf d = (shown, x) \<Longrightarrow> \<not> alert_shown shown \<and> audio_regions shown = []"
  by (auto simp: show_metrics_def split: sum.splits)

lemma show_metrics_index:
  "snd (show_metrics i device_num cf d) = snd (show_metrics j device_num cf d)"
  by (auto simp: show_metrics_def split: sum.splits)

lemma check_bounds_alert:
  "alert_shown (fst (check_bounds w i b cf d a)) = alert_shown (fst (check_bounds w j b cf d a'))"
  by (auto simp: check_bounds_def Let_def split: option.splits sum.splits)

lemma check_bounds_audio:
  "audio_regions (fst (check_bounds w i b cf d a)) =
     (if a = [] \<and> alert_shown (fst (check_bounds w i b cf d a)) \<and> st_audio w = None
      then [Col i] else [])"
  by (auto simp: check_bounds_def Let_def split: option.splits sum.splits)

lemma check_bounds_state:
  "fst (snd (check_bounds w i b cf d a)) =
     (if a = [] \<and> alert_shown (fst (check_bounds w i b cf d a)) \<and> st_audio w = None
      then [()] else a)"
  by (auto simp: check_bounds_def Let_def split: option.splits sum.splits)

lemma process_data_alert:
  "alert_shown (fst (process_data w i device_num data b a)) =
   alert_shown (fst (process_data w j device_num data b a'))"
proof (cases "current_values w data b")
  case (Inl e)
  then show ?thesis by (simp add: process_data_def)
next
  case (Inr p)
  obtain cf d where p: "p = (cf, d)" by (cases p)
  obtain s1 x1 where m1: "show_metrics i device_num cf d = (s1, x1)" by (cases "show_metrics i device_num cf d")
  obtain s2 x2 where m2: "show_metrics j device_num cf d = (s2, x2)" by (cases "show_metrics j device_num cf d")
  have x: "x1 = x2" using show_metrics_index [of i device_num cf d j] m1 m2 by simp
  have q: "\<not> alert_shown s1" "\<not> alert_shown s2"
    using show_metrics_quiet [OF m1] show_metrics_quiet [OF m2] by simp_all
  obtain b1 a1 y1 where c1: "check_bounds w i b cf d a = (b1, a1, y1)" by (cases "check_bounds w i b cf d a")
  obtain b2 a2 y2 where c2: "check_bounds w j b cf d a' = (b2, a2, y2)" by (cases "check_bounds w j b cf d a'")
  have bb: "alert_shown b1 = alert_shown b2" using check_bounds_alert [of w i b cf d a j a'] c1 c2 by simp
  show ?thesis using Inr p m1 m2 x q c1 c2 bb
    by (cases x2; cases y1; cases y2; cases "create_plot w data b device_num")
       (simp_all add: process_data_def)
qed

lemma process_data_audio:
  "audio_regions (fst (process_data w i device_num data b a)) =
     (if a = [] \<and> alert_shown (fst (process_data w i device_num data b a)) \<and> st_audio w = None
      then [Col i] else [])"
proof (cases "current_values w data b")
  case (Inl e)
  then show ?thesis by (simp add: process_data_def)
next
  case (Inr p)
  obtain cf d where p: "p = (cf, d)" by (cases p)
  obtain s1 x1 where m1: "show_metrics i device_num cf d = (s1, x1)" by (cases "show_metrics i device_num cf d")
  have q: "\<not> alert_shown s1" "audio_regions s1 = []"
    using show_metrics_quiet [OF m1] by simp_all
  obtain b1 a1 y1 where c1: "check_bounds w i b cf d a = (b1, a1, y1)" by (cases "check_bounds w i b cf d a")
  have bb: "audio_regions b1 = (if a = [] \<and> alert_shown b1 \<and> st_audio w = None then [Col i] else [])"
    using check_bounds_audio [of w i b cf d a] c1 by simp
  show ?thesis using Inr p m1 q c1 bb
    by (cases x1; cases y1; cases "create_plot w data b device_num") (simp_all add: process_data_def)
qed

lemma process_data_state:
  "fst (snd (process_data w i device_num data b a)) =
     (if a = [] \<and> alert_shown (fst (process_data w i device_num data b a)) \<and> st_audio w = None
      then [()] else a)"
proof (cases "current_values w data b")
  case (Inl e)
  then show ?thesis by (simp add: process_data_def)
next
  case (Inr p)
  obtain cf d where p: "p = (cf, d)" by (cases p)
  obtain s1 x1 where m1: "show_metrics i device_num cf d = (s1, x1)" by (cases "show_metrics i device_num cf d")
  have q: "\<not> alert_shown s1" "audio_regions s1 = []"
    using show_metrics_quiet [OF m1] by simp_all
  obtain b1 a1 y1 where c1: "check_bounds w i b cf d a = (b1, a1, y1)" by (cases "check_bounds w i b cf d a")
  have bb: "a1 = (if a = [] \<and> alert_shown b1 \<and> st_audio w = None then [()] else a)"
    using check_bounds_state [of w i b cf d a] c1 by simp
  show ?thesis using Inr p m1 q c1 bb
    by (cases x1; cases y1; cases "create_plot w data b device_num") (simp_all add: process_data_def)
qed

lemma process_device_alert:
  "alert_shown (fst (process_device w s3_bucket a i device_num)) = alerting w s3_bucket device_num"
proof -
  obtain msgs data bounds where l: "load_data w s3_bucket device_num = (msgs, data, bounds)"
    by (cases "load_data w s3_bucket device_num")
  have q: "\<not> alert_shown msgs" using load_data_quiet [OF l] by simp
  show ?thesis
  proof (cases data)
    case None
    with l q show ?thesis by (simp add: process_device_def alerting_def)
  next
    case (Some df)
    obtain s1 a1 x1 where p1: "process_data w i device_num df bounds a = (s1, a1, x1)"
      by (cases "process_data w i device_num df bounds a")
    obtain s2 a2 x2 where p2: "process_data w 0 device_num df bounds [] = (s2, a2, x2)"
      by (cases "process_data w 0 device_num df bounds []")
    have "alert_shown s1 = alert_shown s2"
      using process_data_alert [of w i device_num df bounds a 0 "[]"] p1 p2 by simp
    with l q Some p1 p2 show ?thesis
      by (cases x1; cases x2) (simp_all add: process_device_def alerting_def)
  qed
qed

lemma process_device_audio:
  "audio_regions (fst (process_device w s3_bucket a i device_num)) =
     (if a = [] \<and> alerting w s3_bucket device_num \<and> st_audio w = None then [Col i] else [])"
proof -
  obtain msgs data bounds where l: "load_data w s3_bucket device_num = (msgs, data, bounds)"
    by (cases "load_data w s3_bucket device_num")
  have q: "\<not> alert_shown msgs" "audio_regions msgs = []" using load_data_quiet [OF l] by simp_all
  have al: "alert_shown (fst (process_device w s3_bucket a i device_num)) = alerting w s3_bucket device_num"
    by (rule process_device_alert)
  show ?thesis
  proof (cases data)
    case None
    with l q al show ?thesis by (auto simp add: process_device_def)
  next
    case (Some df)
    obtain s1 a1 x1 where p1: "process_data w i device_num df bounds a = (s1, a1, x1)"
      by (cases "process_data w i device_num df bounds a")
    have "audio_regions s1 = (if a = [] \<and> alert_shown s1 \<and> st_audio w = None then [Col i] else [])"
      using process_data_audio [of w i device_num df bounds a] p1 by simp
    with l q Some p1 al show ?thesis
      by (cases x1) (auto simp add: process_device_def split: if_splits)
  qed
qed

lemma process_device_state:
  "snd (process_device w s3_bucket a i device_num) =
     (if a = [] \<and> alerting w s3_bucket device_num \<and> st_audio w = None then [()] else a)"
proof -
  obtain msgs data bounds where l: "load_data w s3_bucket device_num = (msgs, data, bounds)"
    by (cases "load_data w s3_bucket device_num")
  have q: "\<not> alert_shown msgs" "audio_regions msgs = []" using load_data_quiet [OF l] by simp_all
  have al: "alert_shown (fst (process_device w s3_bucket a i device_num)) = alerting w s3_bucket device_num"
    by (rule process_device_alert)
  show ?thesis
  proof (cases data)
    case None
    with l q al show ?thesis by (auto simp add: process_device_def)
  next
    case (Some df)
    obtain s1 a1 x1 where p1: "process_data w i device_num df bounds a = (s1, a1, x1)"
      by (cases "process_data w i device_num df bounds a")
    have "a1 = (if a = [] \<and> alert_shown s1 \<and> st_audio w = None then [()] else a)"
      using process_data_state [of w i device_num df bounds a] p1 by simp
    with l q Some p1 al show ?thesis
      by (cases x1) (auto simp add: process_device_def split: if_splits)
  qed
qed

lemma process_devices_started:
  "a \<noteq> [] \<Longrightarrow> audio_regions (fst (process_devices w s3_bucket a i ds)) = []"
proof (induction ds arbitrary: a i)
  case Nil
  then show ?case by simp
next
  case (Cons d ds)
  obtain s a1 where p: "process_device w s3_bucket a i d = (s, a1)" by (cases "process_device w s3_bucket a i d")
  have s: "audio_regions s = []" using process_device_audio [of w s3_bucket a i d] p Cons.prems by simp
  have a1: "a1 = a" using process_device_state [of w s3_bucket a i d] p Cons.prems by simp
  obtain s' a2 where r: "process_devices w s3_bucket a1 (Suc i) ds = (s', a2)" by (cases "process_devices w s3_bucket a1 (Suc i) ds")
  have "audio_regions s' = []" using Cons.IH [of a1 "Suc i"] a1 Cons.prems r by simp
  with p s r show ?case by simp
qed

lemma process_devices_first:
  assumes "\<not> list_ex (alerting w s3_bucket) xs" and "alerting w s3_bucket d"
    and "st_audio w = None"
  shows "audio_regions (fst (process_devices w s3_bucket [] i (xs @ d # ys))) = [Col (i + length xs)]"
  using assms
proof (induction xs arbitrary: i)
  case Nil
  obtain s a1 where p: "process_device w s3_bucket [] i d = (s, a1)" by (cases "process_device w s3_bucket [] i d")
  have s: "audio_regions s = [Col i]" using process_device_audio [of w s3_bucket "[]" i d] p Nil by simp
  have a1: "a1 = [()]" using process_device_state [of w s3_bucket "[]" i d] p Nil by simp
  obtain s' a2 where r: "process_devices w s3_bucket a1 (Suc i) ys = (s', a2)" by (cases "process_devices w s3_bucket a1 (Suc i) ys")
  have "audio_regions s' = []" using process_devices_started [of a1 w s3_bucket "Suc i" ys] a1 r by simp
  with p s r show ?case by simp
next
  case (Cons x xs)
  from Cons.prems have nx: "\<not> alerting w s3_bucket x" and nxs: "\<not> list_ex (alerting w s3_bucket) xs" by simp_all
  obtain s a1 where p: "process_device w s3_bucket [] i x = (s, a1)" by (cases "process_device w s3_bucket [] i x")
  have s: "audio_regions s = []" using process_device_audio [of w s3_bucket "[]" i x] p nx by simp
  have a1: "a1 = []" using process_device_state [of w s3_bucket "[]" i x] p nx by simp
  obtain s' a2 where r: "process_devices w s3_bucket [] (Suc i) (xs @ d # ys) = (s', a2)"
    by (cases "process_devices w s3_bucket [] (Suc i) (xs @ d # ys)")
  have "audio_regions s' = [Col (Suc i + length xs)]"
    using Cons.IH [OF nxs Cons.prems(2,3), of "Suc i"] r by simp
  with p s a1 r show ?case by simp
qed

lemma process_devices_none:
  assumes "\<not> list_ex (alerting w s3_bucket) xs"
  shows "audio_regions (fst (process_devices w s3_bucket [] i xs)) = []"
  using assms
proof (induction xs arbitrary: i)
  case Nil
  then show ?case by simp
next
  case (Cons x xs)
  from Cons.prems have nx: "\<not> alerting w s3_bucket x" and nxs: "\<not> list_ex (alerting w s3_bucket) xs" by simp_all
  obtain s a1 where p: "process_device w s3_bucket [] i x = (s, a1)" by (cases "process_device w s3_bucket [] i x")
  have s: "audio_regions s = []" using process_device_audio [of w s3_bucket "[]" i x] p nx by simp
  have a1: "a1 = []" using process_device_state [of w s3_bucket "[]" i x] p nx by simp
  obtain s' a2 where r: "process_devices w s3_bucket [] (Suc i) xs = (s', a2)"
    by (cases "process_devices w s3_bucket [] (Suc i) xs")
  have "audio_regions s' = []" using Cons.IH [OF nxs, of "Suc i"] r by simp
  with p s a1 r show ?case by simp
qed

text \<open>
  Claim C4 says that in every cycle with at least one alerting device the audio cue is
  started exactly once. The call \<^verbatim>\<open>st.audio\<close> is inside the \<^verbatim>\<open>try\<close> of line 232
  and the \<^verbatim>\<open>append\<close> of line 269 comes after it: when the call raises, as in the
  directory whose sound file cannot be played, devices 2 and 3 both show their banner, no
  player is started and \<^verbatim>\<open>audio_elements\<close> is empty at the end of the pass.
\<close>

theorem audio_failure_no_player:
  "alerting unplayable_directory [] 2 \<and>
   alerting unplayable_directory [] 3 \<and>
   audio_regions (fst (process_devices unplayable_directory [] [] 0 [1, 2, 3])) = [] \<and>
   snd (process_devices unplayable_directory [] [] 0 [1, 2, 3]) = []"
  by code_simp

text \<open>
  Claim C4, amended. In a pass over the devices that starts with \<^verbatim>\<open>audio_elements\<close>
  empty, as line 218 leaves it, in which at least one device satisfies an alert condition
  and the call \<^verbatim>\<open>st.audio\<close> does not raise, exactly one audio player is started, and it
  is started in the column of the first alerting device.
\<close>

theorem audio_started_once:
  assumes "list_ex (alerting w s3_bucket) device_numbers"
    and "st_audio w = None"
  shows "\<exists>k < length device_numbers.
           alerting w s3_bucket (device_numbers ! k) \<and>
           (\<forall>j < k. \<not> alerting w s3_bucket (device_numbers ! j)) \<and>
           audio_regions (fst (process_devices w s3_bucket [] 0 device_numbers)) = [Col k]"
proof -
  from assms(1) have "\<exists>x \<in> set device_numbers. alerting w s3_bucket x"
    by (simp add: list_ex_iff)
  from split_list_first_prop [OF this]
  obtain xs d ys where split: "device_numbers = xs @ d # ys"
    and d: "alerting w s3_bucket d" and xs: "\<forall>x \<in> set xs. \<not> alerting w s3_bucket x"
    by blast
  have nx: "\<not> list_ex (alerting w s3_bucket) xs" using xs by (simp add: list_ex_iff)
  have au: "audio_regions (fst (process_devices w s3_bucket [] 0 device_numbers)) = [Col (length xs)]"
    using process_devices_first [OF nx d assms(2), of 0 ys] split by simp
  have "length xs < length device_numbers" using split by simp
  moreover have "alerting w s3_bucket (device_numbers ! length xs)" using split d by simp
  moreover have "\<forall>j < length xs. \<not> alerting w s3_bucket (device_numbers ! j)"
    using split xs by (simp add: nth_append)
  ultimately show ?thesis using au by blast
qed

theorem audio_started_once_witness:
  "list_ex (alerting alerting_directory []) [1, 2, 3] \<and>
   st_audio alerting_directory = None \<and>
   audio_regions (fst (process_devices alerting_directory [] [] 0 [1, 2, 3])) = [Col 1]"
proof -
  have h: "list_ex (alerting alerting_directory []) [1, 2, 3]" by code_simp
  have h2: "st_audio alerting_directory = None" by code_simp
  from audio_started_once [OF h h2]
  obtain k where k: "alerting alerting_directory [] ([1, 2, 3] ! k)"
    "\<forall>j < k. \<not> alerting alerting_directory [] ([1, 2, 3] ! j)"
    "audio_regions (fst (process_devices alerting_directory [] [] 0 [1, 2, 3])) = [Col k]"
    by blast
  have a0: "\<not> alerting alerting_directory [] 1" by code_simp
  have a1: "alerting alerting_directory [] 2" by code_simp
  have "k \<noteq> 0" using k(1) a0 by (cases k) auto
  moreover have "\<not> 1 < k" using k(2) a1 by auto
  ultimately have "k = 1" by simp
  with h h2 k(3) show ?thesis by simp
qed

subsection \<open>How a run ends\<close>

text \<open>
  Claim C5 says that every cycle reaches the sleep-and-restart step, also when no device
  is discovered. In the empty directory the run shows the single warning and ends at the
  end of the script: it neither sleeps nor calls \<^verbatim>\<open>st.rerun()\<close>.
\<close>

theorem empty_set_no_restart:
  "fst (script empty_directory) = [(Main, WarningNoDeviceData)] \<and>
   snd (script empty_directory) = EndOfScript \<and>
   snd (script empty_directory) \<noteq> SleepAndRerun (refresh_interval empty_directory)"
  by code_simp

text \<open>
  Claim C5, amended. A run whose discovery returns a device list ends as follows: with a
  non-empty list it shows the devices and then sleeps for the refresh interval and reruns,
  whatever happened to each device; with an empty list it shows the single warning and
  ends without sleeping or rerunning.
\<close>

theorem cycle_ending:
  assumes "s3_bucket_of w = Inr s3_bucket"
    and "discover w s3_bucket = (msgs, Inr device_numbers)"
  shows "script w =
           (if device_numbers = [] then (msgs @ [(Main, WarningNoDeviceData)], EndOfScript)
            else (msgs @ fst (process_devices w s3_bucket [] 0 device_numbers),
                  SleepAndRerun (refresh_interval w)))"
  using assms by (simp add: script_def split: prod.splits)

theorem cycle_ending_witness:
  "s3_bucket_of scenario_directory = Inr [] \<and>
   discover scenario_directory [] = ([], Inr [1]) \<and>
   snd (script scenario_directory) = SleepAndRerun 1"
proof -
  have h1: "s3_bucket_of scenario_directory = Inr []" by code_simp
  have h2: "discover scenario_directory [] = ([], Inr [1])" by code_simp
  have h3: "refresh_interval scenario_directory = 1" by code_simp
  show ?thesis using h1 h2 h3 cycle_ending [OF h1 h2] by simp
qed

subsection \<open>A missing sample file\<close>

text \<open>
  Claim C6 says that in local mode a missing sample file with a bounds file present gives
  (absent, the parsed bounds). With only the bounds file of device 3 in the directory,
  \<open>load_data\<close> returns (absent, absent).
\<close>

theorem bounds_file_not_returned:
  "path_exists bounds_only_directory (bounds_file bounds_only_directory 3) \<and>
   \<not> path_exists bounds_only_directory (recent_data_file bounds_only_directory 3) \<and>
   read_csv_file bounds_only_directory (bounds_file bounds_only_directory 3) = Inr bounds_frame \<and>
   load_data bounds_only_directory [] 3 = ([], None, None) \<and>
   load_data bounds_only_directory [] 3 \<noteq> ([], None, Some bounds_frame)"
  by code_simp

text \<open>
  Claim C6, amended. In local mode, when the sample file of a device does not exist,
  \<open>load_data\<close> returns (absent, absent) without any message, whatever reading a file
  would give (so the bounds file is not read), and the loop shows the warning "No valid
  data available" in the column of the device, leaving \<^verbatim>\<open>audio_elements\<close> unchanged.
\<close>

theorem missing_sample_file:
  assumes "\<not> use_s3 w" and "\<not> path_exists w (recent_data_file w device_num)"
  shows "load_data w s3_bucket device_num = ([], None, None) \<and>
         load_data (w\<lparr>read_csv_file := f\<rparr>) s3_bucket device_num = ([], None, None) \<and>
         process_device w s3_bucket audio_elements i device_num =
           ([(Col i, WarningNoValidData device_num)], audio_elements)"
  using assms
  by (simp add: load_data_def load_local_body_def process_device_def recent_data_file_def)

theorem missing_sample_file_witness:
  "\<not> use_s3 bounds_only_directory \<and>
   \<not> path_exists bounds_only_directory (recent_data_file bounds_only_directory 3) \<and>
   load_data bounds_only_directory [] 3 = ([], None, None) \<and>
   load_data (bounds_only_directory\<lparr>read_csv_file := read_csv_file empty_directory\<rparr>) [] 3 = ([], None, None) \<and>
   process_device bounds_only_directory [] [] 0 3 = ([(Col 0, WarningNoValidData 3)], [])"
proof -
  have h1: "\<not> use_s3 bounds_only_directory" by code_simp
  have h2: "\<not> path_exists bounds_only_directory (recent_data_file bounds_only_directory 3)" by code_simp
  show ?thesis
    using h1 h2 missing_sample_file [OF h1 h2, where f = "read_csv_file empty_directory" and ?s3_bucket = "[]" and audio_elements = "[]" and i = 0] by simp
qed

subsection \<open>The order of the devices\<close>

lemma device_numbers_of_order:
  "device_numbers_of fs = Inr ns \<Longrightarrow> map Inr ns = map device_number fs"
proof (induction fs arbitrary: ns)
  case Nil
  then show ?case by simp
next
  case (Cons f fs)
  then show ?case
    by (cases "device_number f"; cases "device_numbers_of fs") (auto simp: bind_exn_def)
qed

lemma get_s3_client_closes:
  "get_s3_client w = (msgs, ok) \<Longrightarrow> shown_devices msgs = []"
  by (auto simp: get_s3_client_def bind_exn_def split: sum.splits option.splits)

lemma load_data_closes:
  assumes "load_data w s3_bucket device_num = (msgs, data, bounds)"
  shows "shown_devices msgs = []"
proof (cases "use_s3 w")
  case False
  with assms show ?thesis
    by (auto simp: load_data_def split: sum.splits)
next
  case True
  obtain m ok where g: "get_s3_client w = (m, ok)" by (cases "get_s3_client w")
  from get_s3_client_closes [OF g] have q: "shown_devices m = []" .
  from assms True g q show ?thesis
    by (cases "load_s3_body w s3_bucket device_num")
       (auto simp: load_data_def load_s3_data_def split: if_splits exn.splits prod.splits bool.splits)
qed

lemma show_metrics_closes:
  "show_metrics i device_num cf d = (shown, x) \<Longrightarrow> shown_devices shown = []"
  by (auto simp: show_metrics_def split: sum.splits)

lemma check_bounds_closes:
  "shown_devices (fst (check_bounds w i b cf d a)) = []"
  by (auto simp: check_bounds_def Let_def split: option.splits sum.splits)

lemma create_plot_title:
  "create_plot w data bounds device_num = Inr fig \<Longrightarrow> title_device fig = device_num"
  by (auto simp: create_plot_def bind_exn_def split: sum.splits)

lemma process_data_closes:
  "process_data w i device_num data b a = (shown, a', x) \<Longrightarrow>
   shown_devices shown = (case x of None \<Rightarrow> [(Col i, device_num)] | Some e \<Rightarrow> [])"
proof (cases "current_values w data b")
  case (Inl e)
  assume "process_data w i device_num data b a = (shown, a', x)"
  with Inl show ?thesis by (auto simp add: process_data_def)
next
  case (Inr p)
  assume pd: "process_data w i device_num data b a = (shown, a', x)"
  obtain cf d where p: "p = (cf, d)" by (cases p)
  obtain s1 x1 where m1: "show_metrics i device_num cf d = (s1, x1)" by (cases "show_metrics i device_num cf d")
  have q: "shown_devices s1 = []" using show_metrics_closes [OF m1] .
  obtain b1 a1 y1 where c1: "check_bounds w i b cf d a = (b1, a1, y1)" by (cases "check_bounds w i b cf d a")
  have bb: "shown_devices b1 = []" using check_bounds_closes [of w i b cf d a] c1 by simp
  show ?thesis
  proof (cases "create_plot w data b device_num")
    case (Inl e)
    with pd Inr p m1 q c1 bb show ?thesis
      by (cases x1; cases y1) (auto simp add: process_data_def)
  next
    case (Inr fig)
    have "title_device fig = device_num" using create_plot_title [OF Inr] .
    with pd \<open>current_values w data b = Inr p\<close> Inr p m1 q c1 bb show ?thesis
      by (cases x1; cases y1) (auto simp add: process_data_def)
  qed
qed

lemma process_device_closes:
  "shown_devices (fst (process_device w s3_bucket a i device_num)) = [(Col i, device_num)]"
proof -
  obtain msgs data bounds where l: "load_data w s3_bucket device_num = (msgs, data, bounds)"
    by (cases "load_data w s3_bucket device_num")
  have q: "shown_devices msgs = []" using load_data_closes [OF l] .
  show ?thesis
  proof (cases data)
    case None
    with l q show ?thesis by (simp add: process_device_def)
  next
    case (Some df)
    obtain s1 a1 x1 where p1: "process_data w i device_num df bounds a = (s1, a1, x1)"
      by (cases "process_data w i device_num df bounds a")
    from process_data_closes [OF p1] l q Some p1 show ?thesis
      by (cases x1) (simp_all add: process_device_def)
  qed
qed

lemma process_devices_closes:
  "shown_devices (fst (process_devices w s3_bucket a i ns)) = zip (map Col [i ..< i + length ns]) ns"
proof (induction ns arbitrary: a i)
  case Nil
  then show ?case by simp
next
  case (Cons n ns)
  obtain s a1 where p: "process_device w s3_bucket a i n = (s, a1)" by (cases "process_device w s3_bucket a i n")
  have s: "shown_devices s = [(Col i, n)]" using process_device_closes [of w s3_bucket a i n] p by simp
  obtain s' a2 where r: "process_devices w s3_bucket a1 (Suc i) ns = (s', a2)"
    by (cases "process_devices w s3_bucket a1 (Suc i) ns")
  have ih: "shown_devices s' = zip (map Col [Suc i ..< Suc i + length ns]) ns"
    using Cons.IH [of a1 "Suc i"] r by simp
  have u: "[i ..< i + length (n # ns)] = i # [Suc i ..< Suc i + length ns]"
    by (simp add: upt_conv_Cons del: upt_Suc)
  show ?case unfolding u using p s r ih by (simp del: upt_Suc)
qed

lemma discover_closes:
  "discover w s3_bucket = (msgs, r) \<Longrightarrow> shown_devices msgs = []"
proof (cases "use_s3 w")
  case False
  assume "discover w s3_bucket = (msgs, r)"
  with False show ?thesis by (auto simp: discover_def)
next
  case True
  assume d: "discover w s3_bucket = (msgs, r)"
  obtain m ok where g: "get_s3_client w = (m, ok)" by (cases "get_s3_client w")
  from get_s3_client_closes [OF g] have q: "shown_devices m = []" .
  from d True g q show ?thesis
    by (auto simp: discover_def split: bool.splits sum.splits)
qed

text \<open>
  Claim C7 says that the devices are processed in increasing order of their identifiers,
  whatever the order of the listing. When \<^verbatim>\<open>glob\<close> returns the file of device 2 before
  the file of device 1, device 2 is shown in column 0 and device 1 in column 1.
\<close>

theorem listing_order_not_increasing:
  "discover unsorted_directory [] = ([], Inr [2, 1]) \<and>
   map snd (shown_devices (fst (script unsorted_directory))) = [2, 1] \<and>
   \<not> sorted (map snd (shown_devices (fst (script unsorted_directory))))"
  by code_simp

text \<open>
  Claim C7, amended. In a run that discovers a non-empty device list, the devices are
  processed and shown in the order in which the glob or the object-store listing returns
  their files: the list of device numbers is the list of the numbers of the files, in the
  order of the files, and column \<open>k\<close> shows the \<open>k\<close>-th of them.
\<close>

theorem devices_in_listing_order:
  assumes "s3_bucket_of w = Inr s3_bucket"
    and "(if use_s3 w then list_objects_v2 w s3_bucket list_prefix else Inr (glob w (glob_pattern w))) = Inr files"
    and "discover w s3_bucket = (msgs, Inr device_numbers)"
    and "device_numbers \<noteq> []"
  shows "map Inr device_numbers = map device_number files \<and>
         shown_devices (fst (script w)) = zip (map Col [0 ..< length device_numbers]) device_numbers"
proof -
  have "device_numbers_of files = Inr device_numbers"
  proof (cases "use_s3 w")
    case False
    with assms(2,3) show ?thesis by (auto simp: discover_def)
  next
    case True
    with assms(2,3,4) show ?thesis
      by (auto simp: discover_def bind_exn_def split: prod.splits bool.splits sum.splits)
  qed
  then have order: "map Inr device_numbers = map device_number files"
    by (rule device_numbers_of_order)
  have q: "shown_devices msgs = []" using discover_closes [OF assms(3)] .
  have "fst (script w) = msgs @ fst (process_devices w s3_bucket [] 0 device_numbers)"
    using assms(1,3,4) by (simp add: script_def split: prod.splits)
  then have "shown_devices (fst (script w)) = zip (map Col [0 ..< length device_numbers]) device_numbers"
    using q process_devices_closes [of w s3_bucket "[]" 0 device_numbers] by simp
  with order show ?thesis by simp
qed

theorem devices_in_listing_order_witness:
  "s3_bucket_of unsorted_directory = Inr [] \<and>
   glob unsorted_directory (glob_pattern unsorted_directory) = [data_path ''2'', data_path ''1''] \<and>
   discover unsorted_directory [] = ([], Inr [2, 1]) \<and>
   map Inr [2, 1] = map device_number [data_path ''2'', data_path ''1''] \<and>
   shown_devices (fst (script unsorted_directory)) = [(Col 0, 2), (Col 1, 1)]"
proof -
  have h1: "s3_bucket_of unsorted_directory = Inr []" by code_simp
  have g: "glob unsorted_directory (glob_pattern unsorted_directory) = [data_path ''2'', data_path ''1'']"
    by code_simp
  have u: "\<not> use_s3 unsorted_directory" by code_simp
  have h2: "(if use_s3 unsorted_directory
             then list_objects_v2 unsorted_directory [] list_prefix
             else Inr (glob unsorted_directory (glob_pattern unsorted_directory))) =
            Inr [data_path ''2'', data_path ''1'']"
    using g u by simp
  have h3: "discover unsorted_directory [] = ([], Inr [2, 1])" by code_simp
  have h4: "[2, 1] \<noteq> ([] :: int list)" by simp
  have z: "zip (map Col [0 ..< length [2, 1 :: int]]) [2, 1 :: int] = [(Col 0, 2), (Col 1, 1)]"
    by code_simp
  show ?thesis
    using h1 g h3 z devices_in_listing_order [OF h1 h2 h3 h4] by simp
qed

subsection \<open>Discovery faults\<close>

text \<open>
  In remote mode a fault of the listing or of the parsing of a key is caught (line 209):
  an error is shown and the device list is empty.
\<close>

lemma remote_discovery_caught:
  assumes "use_s3 w" and "get_s3_client w = (msgs, True)"
    and "bind_exn (list_objects_v2 w s3_bucket list_prefix) device_numbers_of = Inl e"
  shows "discover w s3_bucket = (msgs @ [(Main, ErrorListingS3 e)], Inr [])"
  using assms by (simp add: discover_def)

text \<open>
  Claim C8 says that a discovery fault in either mode gives an empty device set and a
  visible error. In local mode lines 215 and 216 are outside any \<^verbatim>\<open>try\<close>: when a file
  name does not end in a number, the exception of \<^verbatim>\<open>int\<close> leaves the script, nothing is
  shown by the script, and the run neither sleeps nor reruns.
\<close>

theorem local_discovery_uncaught:
  assumes "\<not> use_s3 w" and "device_numbers_of (glob w (glob_pattern w)) = Inl e"
  shows "script w = ([], Uncaught e)"
  using assms by (simp add: script_def s3_bucket_of_def discover_def)

theorem local_discovery_uncaught_witness:
  "\<not> use_s3 bad_name_directory \<and>
   device_numbers_of (glob bad_name_directory (glob_pattern bad_name_directory)) = Inl ValueError \<and>
   script bad_name_directory = ([], Uncaught ValueError)"
proof -
  have h1: "\<not> use_s3 bad_name_directory" by code_simp
  have h2: "device_numbers_of (glob bad_name_directory (glob_pattern bad_name_directory)) = Inl ValueError"
    by code_simp
  show ?thesis using h1 h2 local_discovery_uncaught [OF h1 h2] by simp
qed

subsection \<open>Bounds faults in remote mode\<close>

text \<open>
  Claim C9 says that in remote mode no fault of the bounds part discards a sample that
  was fetched and parsed. With a bounds object that is fetched but cannot be parsed, the
  sample is discarded: \<open>load_data\<close> shows an error and returns (absent, absent).
\<close>

theorem bounds_parse_fault_discards_sample:
  "bind_exn (get_object unparsable_bounds_bucket ''S3_BUCKET_NAME'' (data_key 1))
     (read_csv_body unparsable_bounds_bucket) = Inr (sample_frame 98) \<and>
   bind_exn (get_object unparsable_bounds_bucket ''S3_BUCKET_NAME'' (bounds_key 1))
     (read_csv_body unparsable_bounds_bucket) = Inl (OtherError ''ParserError'') \<and>
   load_data unparsable_bounds_bucket ''S3_BUCKET_NAME'' 1 =
     ([(Main, ErrorLoadingS3Data (OtherError ''ParserError''))], None, None)"
  by code_simp

text \<open>
  Claim C9, amended. In remote mode, when the sample object is fetched, parsed and its
  time column converted, a \<^verbatim>\<open>ClientError\<close> of the bounds part (not found, or any other
  code) gives (the sample data, absent bounds) without any message; any other exception
  of the bounds part reaches the outer handler, which shows an error and returns (absent,
  absent).
\<close>

theorem bounds_fault_outcome:
  assumes "get_s3_client w = (msgs, True)"
    and "bind_exn (get_object w s3_bucket (data_key device_num)) (read_csv_body w) = Inr data0"
    and "getitem data0 ''time'' = Inr t"
    and "to_datetime w t = Inr t'"
    and "bind_exn (get_object w s3_bucket (bounds_key device_num)) (read_csv_body w) = Inl e"
  shows "load_s3_data w s3_bucket device_num =
           (case e of
              ClientError code \<Rightarrow> (msgs, Some (setitem data0 ''time'' t'), None)
            | _ \<Rightarrow> (msgs @ [(Main, ErrorLoadingS3Data e)], None, None))"
proof -
  from assms(2) obtain body where b: "get_object w s3_bucket (data_key device_num) = Inr body"
    and r: "read_csv_body w body = Inr data0"
    by (auto simp: bind_exn_def split: sum.splits)
  have "load_s3_body w s3_bucket device_num =
          (case e of ClientError code \<Rightarrow> Inr (setitem data0 ''time'' t', None) | _ \<Rightarrow> Inl e)"
    using b r assms(3,4,5) by (cases e) (simp_all add: load_s3_body_def bind_exn_def)
  then show ?thesis using assms(1) by (cases e) (simp_all add: load_s3_data_def)
qed

theorem bounds_fault_outcome_witness:
  "get_s3_client denied_bounds_bucket = ([], True) \<and>
   bind_exn (get_object denied_bounds_bucket ''S3_BUCKET_NAME'' (data_key 1))
     (read_csv_body denied_bounds_bucket) = Inr (sample_frame 98) \<and>
   getitem (sample_frame 98) ''time'' = Inr [Str ''2024-01-01T00:00:00''] \<and>
   to_datetime denied_bounds_bucket [Str ''2024-01-01T00:00:00''] = Inr [Num 1704067200] \<and>
   bind_exn (get_object denied_bounds_bucket ''S3_BUCKET_NAME'' (bounds_key 1))
     (read_csv_body denied_bounds_bucket) = Inl (ClientError ''AccessDenied'') \<and>
   load_s3_data denied_bounds_bucket ''S3_BUCKET_NAME'' 1 = ([], Some (converted_frame 98), None)"
proof -
  have h1: "get_s3_client denied_bounds_bucket = ([], True)" by code_simp
  have h2: "bind_exn (get_object denied_bounds_bucket ''S3_BUCKET_NAME'' (data_key 1))
              (read_csv_body denied_bounds_bucket) = Inr (sample_frame 98)" by code_simp
  have h3: "getitem (sample_frame 98) ''time'' = Inr [Str ''2024-01-01T00:00:00'']" by code_simp
  have h4: "to_datetime denied_bounds_bucket [Str ''2024-01-01T00:00:00''] = Inr [Num 1704067200]"
    by code_simp
  have h5: "bind_exn (get_object denied_bounds_bucket ''S3_BUCKET_NAME'' (bounds_key 1))
              (read_csv_body denied_bounds_bucket) = Inl (ClientError ''AccessDenied'')" by code_simp
  show ?thesis
    using h1 h2 h3 h4 h5 bounds_fault_outcome [OF h1 h2 h3 h4 h5]
    by (simp add: converted_frame_def)
qed

end
